theory Spec2Isabelle
  imports Main "HOL-Library.Word"
begin

section \<open>Preferences service (pkg/services/preferences/preferences.go)\<close>

text \<open>
  \<open>models.Preferences\<close>: the ids that say whose entry it is (an organisation, and
  within it a user or a team; zero for none), and the four settings that
  \<open>GetPreferencesWithDefaults\<close> reads and writes. The ids and \<open>HomeDashboardId\<close> are
  \<open>int64\<close>; the three other settings are Go strings.
\<close>

type_synonym int64 = "64 word"

record Preferences =
  OrgId :: int64
  UserId :: int64
  TeamId :: int64
  HomeDashboardId :: int64
  Timezone :: string
  WeekStart :: string
  Theme :: string

text \<open>Go errors are opaque values carrying a message.\<close>

datatype error = Error string

text \<open>
  The body of the \<open>for _, p := range prefs\<close> loop: each field of \<open>res\<close> is overwritten
  when the entry's field is not the zero value.
\<close>

definition merge_step :: "Preferences \<Rightarrow> Preferences \<Rightarrow> Preferences" where
  "merge_step res p =
     (let res = (if Theme p \<noteq> [] then res\<lparr>Theme := Theme p\<rparr> else res);
          res = (if Timezone p \<noteq> [] then res\<lparr>Timezone := Timezone p\<rparr> else res);
          res = (if WeekStart p \<noteq> [] then res\<lparr>WeekStart := WeekStart p\<rparr> else res);
          res = (if HomeDashboardId p \<noteq> 0 then res\<lparr>HomeDashboardId := HomeDashboardId p\<rparr> else res)
      in res)"

fun merge_loop :: "Preferences \<Rightarrow> Preferences list \<Rightarrow> Preferences" where
  "merge_loop res [] = res"
| "merge_loop res (p # prefs) = merge_loop (merge_step res p) prefs"

text \<open>
  \<open>GetPreferencesWithDefaults\<close>. The store is outside this file: the outcome of
  \<open>preferenceStore.List\<close> (the entries and the error, as Go returns both) and the value
  of \<open>preferenceStore.GetDefaults\<close> are the arguments. A store error is returned before
  the defaults are read.
\<close>

definition GetPreferencesWithDefaults ::
  "Preferences list \<times> error option \<Rightarrow> Preferences \<Rightarrow> error + Preferences" where
  "GetPreferencesWithDefaults listed defaults =
     (case listed of
        (prefs, Some err) \<Rightarrow> Inl err
      | (prefs, None) \<Rightarrow> Inr (merge_loop defaults prefs))"

text \<open>
  The fields of \<open>query.User\<close> that \<open>GetPreferencesWithDefaults\<close> reads, and the
  \<open>models.ListPreferencesQuery\<close> it builds from them before calling the store.
\<close>

record GetPreferencesWithDefaultsQuery =
  User_Teams :: "int64 list"
  User_OrgId :: int64
  User_UserId :: int64

record ListPreferencesQuery =
  Teams :: "int64 list"
  ListOrgID :: int64
  ListUserID :: int64

definition listQuery :: "GetPreferencesWithDefaultsQuery \<Rightarrow> ListPreferencesQuery" where
  "listQuery query =
     \<lparr>Teams = User_Teams query, ListOrgID = User_OrgId query, ListUserID = User_UserId query\<rparr>"

text \<open>
  Modelled from the spec: \<open>preferenceStore.List\<close> is not among the sources. The spec has
  preferences as per-user, per-org and per-team settings "merged by specificity
  (team < org < user)". So, of the stored entries, \<open>List\<close> gives those of the query's
  organisation in this order: the entries of the query's teams, then the entries of the
  organisation itself, then the entries of the query's user; it returns no error.
\<close>

definition team_entries :: "Preferences list \<Rightarrow> ListPreferencesQuery \<Rightarrow> Preferences list" where
  "team_entries stored q =
     filter (\<lambda>p. OrgId p = ListOrgID q \<and> UserId p = 0 \<and> TeamId p \<noteq> 0 \<and>
                  TeamId p \<in> set (Teams q)) stored"

definition org_entries :: "Preferences list \<Rightarrow> ListPreferencesQuery \<Rightarrow> Preferences list" where
  "org_entries stored q =
     filter (\<lambda>p. OrgId p = ListOrgID q \<and> UserId p = 0 \<and> TeamId p = 0) stored"

definition user_entries :: "Preferences list \<Rightarrow> ListPreferencesQuery \<Rightarrow> Preferences list" where
  "user_entries stored q =
     filter (\<lambda>p. OrgId p = ListOrgID q \<and> UserId p \<noteq> 0 \<and> UserId p = ListUserID q \<and>
                  TeamId p = 0) stored"

definition preferenceStore_List ::
  "Preferences list \<Rightarrow> ListPreferencesQuery \<Rightarrow> Preferences list \<times> error option" where
  "preferenceStore_List stored q =
     (team_entries stored q @ org_entries stored q @ user_entries stored q, None)"

section \<open>Access-control HTTP API (pkg/services/accesscontrol/api/api.go)\<close>

text \<open>
  What a handler needs of \<open>models.ReqContext\<close>: the query string, the signed-in user and
  the organisation. \<open>c.Query\<close> gives the empty string for a parameter that is absent;
  \<open>c.QueryBool\<close> is \<open>strconv.ParseBool\<close> of it with the parse error dropped.
\<close>

record 'u ReqContext =
  query_params :: "string \<rightharpoonup> string"
  SignedInUser :: 'u
  OrgID :: int64

definition Query :: "('u, 'x) ReqContext_scheme \<Rightarrow> string \<Rightarrow> string" where
  "Query c name = (case query_params c name of None \<Rightarrow> [] | Some v \<Rightarrow> v)"

definition ParseBool :: "string \<Rightarrow> bool" where
  "ParseBool str = (str \<in> set [''1'', ''t'', ''T'', ''TRUE'', ''true'', ''True''])"

definition QueryBool :: "('u, 'x) ReqContext_scheme \<Rightarrow> string \<Rightarrow> bool" where
  "QueryBool c name = ParseBool (Query c name)"

definition StatusOK :: nat where "StatusOK = 200"
definition StatusBadRequest :: nat where "StatusBadRequest = 400"
definition StatusInternalServerError :: nat where "StatusInternalServerError = 500"

text \<open>
  The values the handlers hand to \<open>response.JSON\<close> as body, and the two constructors of
  \<open>response.Response\<close> they use: \<open>response.JSON(status, body)\<close> and
  \<open>response.Error(status, message, err)\<close>.
\<close>

datatype ('m, 's) body =
    ErrBody error
  | TextBody string
  | PermissionsMapBody 'm
  | SimplifiedBody 's

datatype ('m, 's) Response =
    JSON nat "('m, 's) body"
  | ErrorResponse nat string error

fun Status :: "('m, 's) Response \<Rightarrow> nat" where
  "Status (JSON st b) = st"
| "Status (ErrorResponse st msg err) = st"

record Options =
  ReloadCache :: bool

text \<open>
  \<open>ac.Service\<close>: both methods return a value together with an error, as in Go.
  \<open>ac.BuildPermissionsMap\<close> belongs to the same package and is the third field.
\<close>

record ('u, 'p, 'm, 's) Service =
  GetUserPermissions :: "'u \<Rightarrow> Options \<Rightarrow> 'p \<times> error option"
  GetSimplifiedUsersPermissions :: "'u \<Rightarrow> int64 \<Rightarrow> string \<Rightarrow> 's \<times> error option"
  BuildPermissionsMap :: "'p \<Rightarrow> 'm"

datatype 'u service_call =
    CallGetUserPermissions 'u Options
  | CallGetSimplifiedUsersPermissions 'u int64 string

text \<open>
  What running a handler leaves behind: the response it returns, the responses it built
  without returning them, and the calls it made to the service, in order.
\<close>

record ('u, 'm, 's) handled =
  returned :: "('m, 's) Response"
  dropped :: "('m, 's) Response list"
  service_calls :: "'u service_call list"

text \<open>
  \<open>getUserPermissions\<close>. In the \<open>err != nil\<close> branch the source calls
  \<open>response.JSON(http.StatusInternalServerError, err)\<close> as a statement, with no
  \<open>return\<close>; control then reaches the final \<open>return\<close>.
\<close>

definition getUserPermissions ::
  "('u, 'p, 'm, 's) Service \<Rightarrow> 'u ReqContext \<Rightarrow> ('u, 'm, 's) handled" where
  "getUserPermissions api c =
     (let reloadCache = QueryBool c ''reloadcache'';
          opts = \<lparr>ReloadCache = reloadCache\<rparr>;
          (permissions, err) = GetUserPermissions api (SignedInUser c) opts;
          unused = (case err of
                      Some e \<Rightarrow> [JSON StatusInternalServerError (ErrBody e)]
                    | None \<Rightarrow> [])
      in \<lparr>returned = JSON StatusOK (PermissionsMapBody (BuildPermissionsMap api permissions)),
          dropped = unused,
          service_calls = [CallGetUserPermissions (SignedInUser c) opts]\<rparr>)"

text \<open>\<open>getSimpliedUsersPermissions\<close>: every branch returns.\<close>

definition getSimpliedUsersPermissions ::
  "('u, 'p, 'm, 's) Service \<Rightarrow> 'u ReqContext \<Rightarrow> ('u, 'm, 's) handled" where
  "getSimpliedUsersPermissions api c =
     (let actionPrefix = Query c ''actionPrefix''
      in if actionPrefix = []
         then \<lparr>returned = JSON StatusBadRequest (TextBody ''missing action prefix''),
               dropped = [], service_calls = []\<rparr>
         else
           (let (permissions, err) =
                  GetSimplifiedUsersPermissions api (SignedInUser c) (OrgID c) actionPrefix;
                called = [CallGetSimplifiedUsersPermissions (SignedInUser c) (OrgID c) actionPrefix]
            in case err of
                 Some e \<Rightarrow>
                   \<lparr>returned = ErrorResponse StatusInternalServerError
                                 ''could not get org user permissions'' e,
                    dropped = [], service_calls = called\<rparr>
               | None \<Rightarrow>
                   \<lparr>returned = JSON StatusOK (SimplifiedBody permissions),
                    dropped = [], service_calls = called\<rparr>))"

section \<open>API-key service (pkg/services/apikey/apikeyimpl/apikey.go)\<close>

text \<open>
  \<open>setting.Cfg\<close> as this file uses it: \<open>Raw\<close> is the parsed ini file (a nil pointer when
  there is none), a file is its sections by name, a section its raw key values by name.
\<close>

type_synonym ini_section = "string \<rightharpoonup> string"
type_synonym ini_file = "string \<rightharpoonup> ini_section"

record Cfg =
  Raw :: "ini_file option"
  IsFeatureToggleEnabled :: "string \<Rightarrow> bool"

definition HasSection :: "ini_file \<Rightarrow> string \<Rightarrow> bool" where
  "HasSection f name = (f name \<noteq> None)"

text \<open>\<open>Section\<close> on a name that is missing gives a fresh, empty section.\<close>

definition Section :: "ini_file \<Rightarrow> string \<Rightarrow> ini_section" where
  "Section f name = (case f name of None \<Rightarrow> Map.empty | Some sec \<Rightarrow> sec)"

text \<open>\<open>Key\<close> on a name that is missing gives a key whose value is the empty string.\<close>

definition Key :: "ini_section \<Rightarrow> string \<Rightarrow> string" where
  "Key sec name = (case sec name of None \<Rightarrow> [] | Some v \<Rightarrow> v)"

text \<open>
  \<open>MustInt64(defaultVal)\<close>: the value parsed by \<open>strconv.ParseInt(value, 0, 64)\<close>, or the
  default when parsing fails. The parser is an argument.
\<close>

definition MustInt64 :: "(string \<Rightarrow> int64 option) \<Rightarrow> string \<Rightarrow> int64 \<Rightarrow> int64" where
  "MustInt64 ParseInt v defaultVal = (case ParseInt v of None \<Rightarrow> defaultVal | Some n \<Rightarrow> n)"

datatype Scope = GlobalScope | OrgScope | UserScope

text \<open>
  The quota package and the constants of package \<open>apikey\<close> are not part of this file:
  \<open>quota.NewTag\<close>, the two constants and the integer parser are taken as given.
  \<open>quota.Map\<close> is a map from tags to limits; \<open>Set\<close> is a map update.
\<close>

record 't quota_env =
  NewTag :: "string \<Rightarrow> string \<Rightarrow> Scope \<Rightarrow> error + 't"
  QuotaTargetSrv :: string
  QuotaTarget :: string
  ParseInt :: "string \<Rightarrow> int64 option"

type_synonym 't quota_Map = "'t \<rightharpoonup> int64"

definition readQuotaConfig :: "'t quota_env \<Rightarrow> Cfg \<Rightarrow> 't quota_Map \<times> error option" where
  "readQuotaConfig env cfg =
     (case Raw cfg of
        None \<Rightarrow> (Map.empty, None)
      | Some raw \<Rightarrow>
          if \<not> HasSection raw ''quota'' then (Map.empty, None)
          else
            (let quotaSection = Section raw ''quota''
             in case NewTag env (QuotaTargetSrv env) (QuotaTarget env) GlobalScope of
                  Inl err \<Rightarrow> (Map.empty, Some err)
                | Inr globalQuotaTag \<Rightarrow>
                    (case NewTag env (QuotaTargetSrv env) (QuotaTarget env) OrgScope of
                       Inl err \<Rightarrow> (Map.empty, Some err)
                     | Inr orgQuotaTag \<Rightarrow>
                         (let limits = Map.empty;
                              limits = limits(globalQuotaTag \<mapsto>
                                 MustInt64 (ParseInt env) (Key quotaSection ''global_api_key'') (- 1));
                              limits = limits(orgQuotaTag \<mapsto>
                                 MustInt64 (ParseInt env) (Key quotaSection ''org_api_key'') 10)
                          in (limits, None)))))"

text \<open>
  The two implementations of the \<open>store\<close> interface that \<open>ProvideService\<close> can build, with
  the fields it gives them; \<open>s.store\<close> is nil until one is assigned.
\<close>

datatype ('db, 'sess) store =
    sqlxStore 'sess Cfg
  | sqlStore 'db Cfg

record ('db, 'sess) apikey_Service =
  store :: "('db, 'sess) store option"

text \<open>The event \<open>events.NewQuotaReporter\<close> published on the bus.\<close>

record 't NewQuotaReporter =
  TargetSrv :: string
  DefaultLimits :: "'t quota_Map"

text \<open>
  \<open>ProvideService\<close> returns the service and an error; the third component is what it
  published on the bus. \<open>GetSqlxSession\<close> of the database handle and \<open>Publish\<close> of the
  bus are arguments.
\<close>

definition ProvideService ::
  "'t quota_env \<Rightarrow> ('db \<Rightarrow> 'sess) \<Rightarrow> ('t NewQuotaReporter \<Rightarrow> error option) \<Rightarrow> 'db \<Rightarrow> Cfg
     \<Rightarrow> ('db, 'sess) apikey_Service \<times> error option \<times> 't NewQuotaReporter list" where
  "ProvideService env GetSqlxSession Publish db cfg =
     (let s = \<lparr>store = None\<rparr>;
          s = (if IsFeatureToggleEnabled cfg ''newDBLibrary''
               then s\<lparr>store := Some (sqlxStore (GetSqlxSession db) cfg)\<rparr>
               else s);
          s = s\<lparr>store := Some (sqlStore db cfg)\<rparr>
      in case readQuotaConfig env cfg of
           (defaultLimits, Some err) \<Rightarrow> (s, Some err, [])
         | (defaultLimits, None) \<Rightarrow>
             (let ev = \<lparr>TargetSrv = QuotaTargetSrv env, DefaultLimits = defaultLimits\<rparr>
              in case Publish ev of
                   Some err \<Rightarrow> (s, Some err, [ev])
                 | None \<Rightarrow> (s, None, [ev])))"

section \<open>Kind loading (pkg/kindsys/load.go)\<close>

text \<open>
  The four kind categories: the members of the type constraint \<open>KindMetas\<close>, and the
  dynamic types behind the interface \<open>SomeKindMeta\<close>. The fields of the four structs
  are not used by this file; \<open>'m\<close> stands for their decoded contents.
\<close>

datatype category = Raw_kind | CoreStructured_kind | CustomStructured_kind | SlotImpl_kind

datatype 'm SomeKindMeta =
    RawMeta 'm
  | CoreStructuredMeta 'm
  | CustomStructuredMeta 'm
  | SlotImplMeta 'm

fun meta_of :: "category \<Rightarrow> 'm \<Rightarrow> 'm SomeKindMeta" where
  "meta_of Raw_kind m = RawMeta m"
| "meta_of CoreStructured_kind m = CoreStructuredMeta m"
| "meta_of CustomStructured_kind m = CustomStructuredMeta m"
| "meta_of SlotImpl_kind m = SlotImplMeta m"

fun category_of :: "'m SomeKindMeta \<Rightarrow> category" where
  "category_of (RawMeta m) = Raw_kind"
| "category_of (CoreStructuredMeta m) = CoreStructured_kind"
| "category_of (CustomStructuredMeta m) = CustomStructured_kind"
| "category_of (SlotImplMeta m) = SlotImpl_kind"

text \<open>
  Modelled from the spec: \<open>ErrValueNotExist\<close>, \<open>ErrValueNotAKind\<close> and \<open>ewrap\<close> are
  declared in a file of the package that is not among the sources. The two sentinels are
  distinct errors, and \<open>ewrap actual is\<close> is an error that wraps \<open>is\<close> and carries
  \<open>actual\<close>. \<open>errors_Is\<close> is Go's \<open>errors.Is\<close> on these values.
\<close>

datatype kind_error =
    ErrValueNotExist
  | ErrValueNotAKind
  | ewrap "error option" kind_error

fun errors_Is :: "kind_error \<Rightarrow> kind_error \<Rightarrow> bool" where
  "errors_Is (ewrap actual inner) target = (ewrap actual inner = target \<or> errors_Is inner target)"
| "errors_Is err target = (err = target)"

datatype selector = Def string | Str string

text \<open>
  The CUE and Thema runtimes are external. A runtime is given by the operations the file
  calls on a \<open>cue.Value\<close> (\<open>'v\<close>), with \<open>Validate\<close> standing for
  \<open>Validate(cue.Concrete(false), cue.All())\<close>, the zero value of the metadata structs,
  the package's \<open>defaultFramework\<close>, Grafana's singleton context and Thema runtime, and
  \<open>doLoadFrameworkCUE\<close> (whose error \<open>CUEFramework\<close> drops).
\<close>

record ('v, 'c, 'm, 'r, 'l, 'o) runtime =
  Exists :: "'v \<Rightarrow> bool"
  Context :: "'v \<Rightarrow> 'c option"
  LookupPath :: "'v \<Rightarrow> selector list \<Rightarrow> 'v"
  Unify :: "'v \<Rightarrow> 'v \<Rightarrow> 'v"
  Validate :: "'v \<Rightarrow> error option"
  Err :: "'v \<Rightarrow> error option"
  Decode :: "'v \<Rightarrow> category \<Rightarrow> error + 'm"
  zero_meta :: 'm
  defaultFramework :: 'v
  GrafanaCUEContext :: 'c
  doLoadFrameworkCUE :: "'c \<Rightarrow> 'v \<times> error option"
  GrafanaThemaRuntime :: 'r
  BindLineage :: "'v \<Rightarrow> 'r \<Rightarrow> 'o list \<Rightarrow> 'l option \<times> error option"

text \<open>A call either returns or panics.\<close>

datatype panic = Unreachable | Details error

datatype 'a outcome = Return 'a | Panic panic

definition CUEFramework :: "('v, 'c, 'm, 'r, 'l, 'o) runtime \<Rightarrow> 'c option \<Rightarrow> 'v" where
  "CUEFramework rt ctx =
     (case ctx of
        None \<Rightarrow> defaultFramework rt
      | Some c \<Rightarrow>
          if c = GrafanaCUEContext rt then defaultFramework rt
          else (case doLoadFrameworkCUE rt c of (v, err) \<Rightarrow> v))"

text \<open>The framework definition that each category is unified with.\<close>

fun kdef_name :: "category \<Rightarrow> string" where
  "kdef_name Raw_kind = ''Raw''"
| "kdef_name CoreStructured_kind = ''CoreStructured''"
| "kdef_name CustomStructured_kind = ''CustomStructured''"
| "kdef_name SlotImpl_kind = ''Slot''"

text \<open>
  \<open>ToKindMeta[T]\<close>, with the type parameter as first argument. The metadata returned
  next to an error is the zero value of \<open>T\<close>. The \<open>default\<close> branch of the type switch
  has no counterpart: the four categories are all the types \<open>T\<close> can be.
\<close>

definition ToKindMeta ::
  "('v, 'c, 'm, 'r, 'l, 'o) runtime \<Rightarrow> category \<Rightarrow> 'v
     \<Rightarrow> ('m SomeKindMeta \<times> kind_error option) outcome" where
  "ToKindMeta rt T v =
     (let meta = meta_of T (zero_meta rt)
      in if \<not> Exists rt v then Return (meta, Some ErrValueNotExist)
         else
           (let fw = CUEFramework rt (Context rt v);
                kdef = LookupPath rt fw [Def (kdef_name T)];
                item = Unify rt v kdef
            in case Validate rt item of
                 Some err \<Rightarrow> Return (meta, Some (ewrap (Err rt item) ErrValueNotAKind))
               | None \<Rightarrow>
                   (case Decode rt item T of
                      Inl err \<Rightarrow> Panic (Details err)
                    | Inr m \<Rightarrow> Return (meta_of T m, None))))"

text \<open>
  One \<open>if meta, err := ToKindMeta[T](v); err == nil\<close> step of \<open>ToSomeKindMeta\<close>: a
  success returns, a panic unwinds, an error goes on to what follows.
\<close>

definition try_category ::
  "('v, 'c, 'm, 'r, 'l, 'o) runtime \<Rightarrow> category \<Rightarrow> 'v
     \<Rightarrow> ('m SomeKindMeta option \<times> kind_error option) outcome
     \<Rightarrow> ('m SomeKindMeta option \<times> kind_error option) outcome" where
  "try_category rt T v otherwise =
     (case ToKindMeta rt T v of
        Panic p \<Rightarrow> Panic p
      | Return (meta, None) \<Rightarrow> Return (Some meta, None)
      | Return (meta, Some err) \<Rightarrow> otherwise)"

text \<open>\<open>ToSomeKindMeta\<close>; the interface value returned with an error is nil.\<close>

definition ToSomeKindMeta ::
  "('v, 'c, 'm, 'r, 'l, 'o) runtime \<Rightarrow> 'v
     \<Rightarrow> ('m SomeKindMeta option \<times> kind_error option) outcome" where
  "ToSomeKindMeta rt v =
     (if \<not> Exists rt v then Return (None, Some ErrValueNotExist)
      else
        try_category rt Raw_kind v
          (try_category rt CoreStructured_kind v
            (try_category rt CustomStructured_kind v
              (try_category rt SlotImpl_kind v
                (Return (None, Some ErrValueNotAKind))))))"

text \<open>\<open>SomeDecl\<close>; \<open>Meta\<close> is an interface value and may be nil.\<close>

record ('v, 'm) SomeDecl =
  V :: 'v
  Meta :: "'m SomeKindMeta option"

definition IsRaw :: "('v, 'm) SomeDecl \<Rightarrow> bool" where
  "IsRaw decl = (case Meta decl of Some (RawMeta m) \<Rightarrow> True | _ \<Rightarrow> False)"

definition IsCoreStructured :: "('v, 'm) SomeDecl \<Rightarrow> bool" where
  "IsCoreStructured decl = (case Meta decl of Some (CoreStructuredMeta m) \<Rightarrow> True | _ \<Rightarrow> False)"

definition IsCustomStructured :: "('v, 'm) SomeDecl \<Rightarrow> bool" where
  "IsCustomStructured decl = (case Meta decl of Some (CustomStructuredMeta m) \<Rightarrow> True | _ \<Rightarrow> False)"

definition IsSlotImpl :: "('v, 'm) SomeDecl \<Rightarrow> bool" where
  "IsSlotImpl decl = (case Meta decl of Some (SlotImplMeta m) \<Rightarrow> True | _ \<Rightarrow> False)"

text \<open>
  \<open>BindKindLineage\<close>: a nil runtime is replaced by Grafana's; a nil \<open>Meta\<close> matches no
  case of the type switch and reaches \<open>panic("unreachable")\<close>.
\<close>

definition BindKindLineage ::
  "('v, 'c, 'm, 'r, 'l, 'o) runtime \<Rightarrow> ('v, 'm) SomeDecl \<Rightarrow> 'r option \<Rightarrow> 'o list
     \<Rightarrow> ('l option \<times> error option) outcome" where
  "BindKindLineage env decl rt opts =
     (let rt = (case rt of None \<Rightarrow> GrafanaThemaRuntime env | Some r \<Rightarrow> r);
          lineage = LookupPath env (V decl) [Str ''lineage'']
      in case Meta decl of
           Some (RawMeta m) \<Rightarrow> Return (None, None)
         | Some (CoreStructuredMeta m) \<Rightarrow> Return (BindLineage env lineage rt opts)
         | Some (CustomStructuredMeta m) \<Rightarrow> Return (BindLineage env lineage rt opts)
         | Some (SlotImplMeta m) \<Rightarrow> Return (BindLineage env lineage rt opts)
         | None \<Rightarrow> Panic Unreachable)"

text \<open>The order in which \<open>ToSomeKindMeta\<close> tries the categories.\<close>

definition category_order :: "category list" where
  "category_order = [Raw_kind, CoreStructured_kind, CustomStructured_kind, SlotImpl_kind]"

text \<open>The value that \<open>ToKindMeta[T]\<close> validates and decodes: \<open>v\<close> unified with the definition of \<open>T\<close>.\<close>

definition unified :: "('v, 'c, 'm, 'r, 'l, 'o) runtime \<Rightarrow> category \<Rightarrow> 'v \<Rightarrow> 'v" where
  "unified rt T v =
     Unify rt v (LookupPath rt (CUEFramework rt (Context rt v)) [Def (kdef_name T)])"

text \<open>
  A small runtime for running the functions above on concrete values. Its values are
  strings; the empty string does not exist; unifying with the definition \<open>#T\<close> appends
  its name; a unified value validates if it is listed in \<open>valid\<close> and decodes if it is
  listed in \<open>decodable\<close>; binding a lineage succeeds on non-empty values.
\<close>

definition example_runtime ::
  "string list \<Rightarrow> string list \<Rightarrow> (string, nat, string, nat, string, unit) runtime" where
  "example_runtime valid decodable =
     \<lparr>Exists = (\<lambda>v. v \<noteq> []),
      Context = (\<lambda>v. Some 0),
      LookupPath = (\<lambda>v path. case path of
                       [Def name] \<Rightarrow> CHR ''#'' # name
                     | [Str name] \<Rightarrow> v @ CHR ''.'' # name
                     | _ \<Rightarrow> []),
      Unify = (\<lambda>v w. v @ '' & '' @ w),
      Validate = (\<lambda>v. if v \<in> set valid then None else Some (Error ''conflicting values'')),
      Err = (\<lambda>v. if v \<in> set valid then None else Some (Error ''conflicting values'')),
      Decode = (\<lambda>v T. if v \<in> set decodable then Inr v else Inl (Error ''incomplete value'')),
      zero_meta = [],
      defaultFramework = ''framework'',
      GrafanaCUEContext = 0,
      doLoadFrameworkCUE = (\<lambda>c. (''framework'', None)),
      GrafanaThemaRuntime = 0,
      BindLineage = (\<lambda>v r opts. if v = [] then (None, Some (Error ''not a lineage''))
                                  else (Some v, None))\<rparr>"

section \<open>CUE context helpers (package cuectx, PrefixWithGrafanaCUE)\<close>

























section \<open>Properties of the preferences merge\<close>

lemma merge_step_Theme:
  "Theme (merge_step res p) = (if Theme p \<noteq> [] then Theme p else Theme res)"
  by (simp add: merge_step_def Let_def)

lemma merge_step_Timezone:
  "Timezone (merge_step res p) = (if Timezone p \<noteq> [] then Timezone p else Timezone res)"
  by (simp add: merge_step_def Let_def)

lemma merge_step_WeekStart:
  "WeekStart (merge_step res p) = (if WeekStart p \<noteq> [] then WeekStart p else WeekStart res)"
  by (simp add: merge_step_def Let_def)

lemma merge_step_HomeDashboardId:
  "HomeDashboardId (merge_step res p) =
     (if HomeDashboardId p \<noteq> 0 then HomeDashboardId p else HomeDashboardId res)"
  by (simp add: merge_step_def Let_def)

lemma merge_loop_append: "merge_loop res (xs @ ys) = merge_loop (merge_loop res xs) ys"
  by (induction xs arbitrary: res) simp_all

text \<open>
  For a field whose step is "take the entry's value when it passes the test, keep the
  old one otherwise": entries that fail the test leave the field as it was, and after an
  entry that passes, followed only by entries that fail, the field is that entry's.
\<close>

lemma merge_loop_keeps:
  assumes step: "\<And>res p. f (merge_step res p) = (if P p then f p else f res)"
    and none: "\<forall>q\<in>set ys. \<not> P q"
  shows "f (merge_loop res ys) = f res"
  using none by (induction ys arbitrary: res) (simp_all add: step)

lemma merge_loop_last:
  assumes step: "\<And>res p. f (merge_step res p) = (if P p then f p else f res)"
    and hit: "P p" and none: "\<forall>q\<in>set ys. \<not> P q"
  shows "f (merge_loop res (xs @ p # ys)) = f p"
proof -
  have "f (merge_loop res (xs @ p # ys)) = f (merge_loop (merge_step (merge_loop res xs) p) ys)"
    by (simp add: merge_loop_append)
  also have "\<dots> = f (merge_step (merge_loop res xs) p)"
    using step none by (rule merge_loop_keeps)
  also have "\<dots> = f p"
    by (simp add: step hit)
  finally show ?thesis .
qed

lemma find_append_cases:
  "find P (xs @ ys) = (case find P xs of Some x \<Rightarrow> Some x | None \<Rightarrow> find P ys)"
  by (induction xs) simp_all

text \<open>
  The same field after the whole loop, read off the list backwards: the value of the
  last entry that passes the test, or the start value when none does.
\<close>

lemma merge_loop_find:
  assumes step: "\<And>res p. f (merge_step res p) = (if P p then f p else f res)"
  shows "f (merge_loop res xs) = (case find P (rev xs) of Some p \<Rightarrow> f p | None \<Rightarrow> f res)"
proof (induction xs arbitrary: res)
  case Nil
  show ?case by simp
next
  case (Cons x xs)
  show ?case
    by (simp add: Cons.IH step find_append_cases split: option.splits)
qed

lemma merge_loop_levels:
  assumes step: "\<And>res p. f (merge_step res p) = (if P p then f p else f res)"
  shows "f (merge_loop res (ts @ os @ us)) =
           (case find P (rev us) of Some p \<Rightarrow> f p
            | None \<Rightarrow> (case find P (rev os) of Some p \<Rightarrow> f p
            | None \<Rightarrow> (case find P (rev ts) of Some p \<Rightarrow> f p
            | None \<Rightarrow> f res)))"
  by (simp add: merge_loop_find [where f = f and P = P, OF step] find_append_cases
      split: option.splits)

section \<open>Claims about the preferences merge\<close>

text \<open>
  Claim C1. When the store lists the entries without error, \<open>GetPreferencesWithDefaults\<close>
  returns a result in which each of Theme, Timezone, WeekStart and HomeDashboardId has the
  value of the last listed entry whose value for that field is non-empty (a non-empty
  string, a non-zero id): later entries of the list override earlier ones. With the
  store listing by specificity (team entries, then org entries, then user entries), each
  field has the user-level non-empty value if there is one, else the org-level one, else
  the team-level one, else the default; within a level the last non-empty entry counts
  (\<open>find\<close> on the reversed entries).
\<close>

theorem GetPreferencesWithDefaults_last_non_empty_wins:
  "(\<exists>res. GetPreferencesWithDefaults (prefs, None) defaults = Inr res \<and>
     (\<forall>xs p ys. prefs = xs @ p # ys \<and> Theme p \<noteq> [] \<and> (\<forall>q\<in>set ys. Theme q = [])
        \<longrightarrow> Theme res = Theme p) \<and>
     (\<forall>xs p ys. prefs = xs @ p # ys \<and> Timezone p \<noteq> [] \<and> (\<forall>q\<in>set ys. Timezone q = [])
        \<longrightarrow> Timezone res = Timezone p) \<and>
     (\<forall>xs p ys. prefs = xs @ p # ys \<and> WeekStart p \<noteq> [] \<and> (\<forall>q\<in>set ys. WeekStart q = [])
        \<longrightarrow> WeekStart res = WeekStart p) \<and>
     (\<forall>xs p ys. prefs = xs @ p # ys \<and> HomeDashboardId p \<noteq> 0 \<and> (\<forall>q\<in>set ys. HomeDashboardId q = 0)
        \<longrightarrow> HomeDashboardId res = HomeDashboardId p)) \<and>
   (\<exists>res. GetPreferencesWithDefaults (preferenceStore_List stored (listQuery query)) defaults = Inr res \<and>
     Theme res =
       (case find (\<lambda>p. Theme p \<noteq> []) (rev (user_entries stored (listQuery query))) of
          Some p \<Rightarrow> Theme p
        | None \<Rightarrow>
       (case find (\<lambda>p. Theme p \<noteq> []) (rev (org_entries stored (listQuery query))) of
          Some p \<Rightarrow> Theme p
        | None \<Rightarrow>
       (case find (\<lambda>p. Theme p \<noteq> []) (rev (team_entries stored (listQuery query))) of
          Some p \<Rightarrow> Theme p
        | None \<Rightarrow> Theme defaults))) \<and>
     Timezone res =
       (case find (\<lambda>p. Timezone p \<noteq> []) (rev (user_entries stored (listQuery query))) of
          Some p \<Rightarrow> Timezone p
        | None \<Rightarrow>
       (case find (\<lambda>p. Timezone p \<noteq> []) (rev (org_entries stored (listQuery query))) of
          Some p \<Rightarrow> Timezone p
        | None \<Rightarrow>
       (case find (\<lambda>p. Timezone p \<noteq> []) (rev (team_entries stored (listQuery query))) of
          Some p \<Rightarrow> Timezone p
        | None \<Rightarrow> Timezone defaults))) \<and>
     WeekStart res =
       (case find (\<lambda>p. WeekStart p \<noteq> []) (rev (user_entries stored (listQuery query))) of
          Some p \<Rightarrow> WeekStart p
        | None \<Rightarrow>
       (case find (\<lambda>p. WeekStart p \<noteq> []) (rev (org_entries stored (listQuery query))) of
          Some p \<Rightarrow> WeekStart p
        | None \<Rightarrow>
       (case find (\<lambda>p. WeekStart p \<noteq> []) (rev (team_entries stored (listQuery query))) of
          Some p \<Rightarrow> WeekStart p
        | None \<Rightarrow> WeekStart defaults))) \<and>
     HomeDashboardId res =
       (case find (\<lambda>p. HomeDashboardId p \<noteq> 0) (rev (user_entries stored (listQuery query))) of
          Some p \<Rightarrow> HomeDashboardId p
        | None \<Rightarrow>
       (case find (\<lambda>p. HomeDashboardId p \<noteq> 0) (rev (org_entries stored (listQuery query))) of
          Some p \<Rightarrow> HomeDashboardId p
        | None \<Rightarrow>
       (case find (\<lambda>p. HomeDashboardId p \<noteq> 0) (rev (team_entries stored (listQuery query))) of
          Some p \<Rightarrow> HomeDashboardId p
        | None \<Rightarrow> HomeDashboardId defaults))))"
proof (rule conjI)
  show "\<exists>res. GetPreferencesWithDefaults (prefs, None) defaults = Inr res \<and>
     (\<forall>xs p ys. prefs = xs @ p # ys \<and> Theme p \<noteq> [] \<and> (\<forall>q\<in>set ys. Theme q = [])
        \<longrightarrow> Theme res = Theme p) \<and>
     (\<forall>xs p ys. prefs = xs @ p # ys \<and> Timezone p \<noteq> [] \<and> (\<forall>q\<in>set ys. Timezone q = [])
        \<longrightarrow> Timezone res = Timezone p) \<and>
     (\<forall>xs p ys. prefs = xs @ p # ys \<and> WeekStart p \<noteq> [] \<and> (\<forall>q\<in>set ys. WeekStart q = [])
        \<longrightarrow> WeekStart res = WeekStart p) \<and>
     (\<forall>xs p ys. prefs = xs @ p # ys \<and> HomeDashboardId p \<noteq> 0 \<and> (\<forall>q\<in>set ys. HomeDashboardId q = 0)
        \<longrightarrow> HomeDashboardId res = HomeDashboardId p)"
  proof (intro exI conjI allI impI)
    show "GetPreferencesWithDefaults (prefs, None) defaults = Inr (merge_loop defaults prefs)"
      by (simp add: GetPreferencesWithDefaults_def)
  next
    fix xs p ys
    assume "prefs = xs @ p # ys \<and> Theme p \<noteq> [] \<and> (\<forall>q\<in>set ys. Theme q = [])"
    then show "Theme (merge_loop defaults prefs) = Theme p"
      using merge_loop_last [where f = Theme and P = "\<lambda>q. Theme q \<noteq> []", OF merge_step_Theme]
      by simp
  next
    fix xs p ys
    assume "prefs = xs @ p # ys \<and> Timezone p \<noteq> [] \<and> (\<forall>q\<in>set ys. Timezone q = [])"
    then show "Timezone (merge_loop defaults prefs) = Timezone p"
      using merge_loop_last [where f = Timezone and P = "\<lambda>q. Timezone q \<noteq> []", OF merge_step_Timezone]
      by simp
  next
    fix xs p ys
    assume "prefs = xs @ p # ys \<and> WeekStart p \<noteq> [] \<and> (\<forall>q\<in>set ys. WeekStart q = [])"
    then show "WeekStart (merge_loop defaults prefs) = WeekStart p"
      using merge_loop_last [where f = WeekStart and P = "\<lambda>q. WeekStart q \<noteq> []", OF merge_step_WeekStart]
      by simp
  next
    fix xs p ys
    assume "prefs = xs @ p # ys \<and> HomeDashboardId p \<noteq> 0 \<and> (\<forall>q\<in>set ys. HomeDashboardId q = 0)"
    then show "HomeDashboardId (merge_loop defaults prefs) = HomeDashboardId p"
      using merge_loop_last [where f = HomeDashboardId and P = "\<lambda>q. HomeDashboardId q \<noteq> 0",
          OF merge_step_HomeDashboardId]
      by simp
  qed
next
  let ?ts = "team_entries stored (listQuery query)"
  let ?os = "org_entries stored (listQuery query)"
  let ?us = "user_entries stored (listQuery query)"
  let ?res = "merge_loop defaults (?ts @ ?os @ ?us)"
  have ret: "GetPreferencesWithDefaults (preferenceStore_List stored (listQuery query)) defaults = Inr ?res"
    by (simp add: GetPreferencesWithDefaults_def preferenceStore_List_def)
  note th = merge_loop_levels [where f = Theme and P = "\<lambda>p. Theme p \<noteq> []",
      OF merge_step_Theme, of defaults ?ts ?os ?us]
  note tz = merge_loop_levels [where f = Timezone and P = "\<lambda>p. Timezone p \<noteq> []",
      OF merge_step_Timezone, of defaults ?ts ?os ?us]
  note ws = merge_loop_levels [where f = WeekStart and P = "\<lambda>p. WeekStart p \<noteq> []",
      OF merge_step_WeekStart, of defaults ?ts ?os ?us]
  note hd = merge_loop_levels [where f = HomeDashboardId and P = "\<lambda>p. HomeDashboardId p \<noteq> 0",
      OF merge_step_HomeDashboardId, of defaults ?ts ?os ?us]
  from ret th tz ws hd
  show "\<exists>res. GetPreferencesWithDefaults (preferenceStore_List stored (listQuery query)) defaults = Inr res \<and>
     Theme res =
       (case find (\<lambda>p. Theme p \<noteq> []) (rev ?us) of Some p \<Rightarrow> Theme p
        | None \<Rightarrow> (case find (\<lambda>p. Theme p \<noteq> []) (rev ?os) of Some p \<Rightarrow> Theme p
        | None \<Rightarrow> (case find (\<lambda>p. Theme p \<noteq> []) (rev ?ts) of Some p \<Rightarrow> Theme p
        | None \<Rightarrow> Theme defaults))) \<and>
     Timezone res =
       (case find (\<lambda>p. Timezone p \<noteq> []) (rev ?us) of Some p \<Rightarrow> Timezone p
        | None \<Rightarrow> (case find (\<lambda>p. Timezone p \<noteq> []) (rev ?os) of Some p \<Rightarrow> Timezone p
        | None \<Rightarrow> (case find (\<lambda>p. Timezone p \<noteq> []) (rev ?ts) of Some p \<Rightarrow> Timezone p
        | None \<Rightarrow> Timezone defaults))) \<and>
     WeekStart res =
       (case find (\<lambda>p. WeekStart p \<noteq> []) (rev ?us) of Some p \<Rightarrow> WeekStart p
        | None \<Rightarrow> (case find (\<lambda>p. WeekStart p \<noteq> []) (rev ?os) of Some p \<Rightarrow> WeekStart p
        | None \<Rightarrow> (case find (\<lambda>p. WeekStart p \<noteq> []) (rev ?ts) of Some p \<Rightarrow> WeekStart p
        | None \<Rightarrow> WeekStart defaults))) \<and>
     HomeDashboardId res =
       (case find (\<lambda>p. HomeDashboardId p \<noteq> 0) (rev ?us) of Some p \<Rightarrow> HomeDashboardId p
        | None \<Rightarrow> (case find (\<lambda>p. HomeDashboardId p \<noteq> 0) (rev ?os) of Some p \<Rightarrow> HomeDashboardId p
        | None \<Rightarrow> (case find (\<lambda>p. HomeDashboardId p \<noteq> 0) (rev ?ts) of Some p \<Rightarrow> HomeDashboardId p
        | None \<Rightarrow> HomeDashboardId defaults)))"
    by (intro exI [of _ ?res] conjI)
qed

theorem GetPreferencesWithDefaults_last_non_empty_wins_witness:
  "(\<exists>res. GetPreferencesWithDefaults
          ([\<lparr>OrgId = 1, UserId = 0, TeamId = 5, HomeDashboardId = 7, Timezone = ''browser'', WeekStart = ''monday'', Theme = ''light''\<rparr>,
            \<lparr>OrgId = 1, UserId = 0, TeamId = 0, HomeDashboardId = 0, Timezone = ''utc'', WeekStart = [], Theme = ''light''\<rparr>,
            \<lparr>OrgId = 1, UserId = 9, TeamId = 0, HomeDashboardId = 0, Timezone = [], WeekStart = [], Theme = ''dark''\<rparr>], None)
          \<lparr>OrgId = 0, UserId = 0, TeamId = 0, HomeDashboardId = 0, Timezone = [], WeekStart = [], Theme = []\<rparr> = Inr res \<and>
        Theme res = ''dark'' \<and> Timezone res = ''utc'' \<and> WeekStart res = ''monday'' \<and>
        HomeDashboardId res = 7) \<and>
   (\<exists>res. GetPreferencesWithDefaults
          (preferenceStore_List
             [\<lparr>OrgId = 1, UserId = 9, TeamId = 0, HomeDashboardId = 0, Timezone = [], WeekStart = [], Theme = ''dark''\<rparr>,
              \<lparr>OrgId = 2, UserId = 0, TeamId = 0, HomeDashboardId = 4, Timezone = ''cet'', WeekStart = ''saturday'', Theme = ''system''\<rparr>,
              \<lparr>OrgId = 1, UserId = 0, TeamId = 0, HomeDashboardId = 0, Timezone = ''utc'', WeekStart = [], Theme = ''light''\<rparr>,
              \<lparr>OrgId = 1, UserId = 0, TeamId = 6, HomeDashboardId = 8, Timezone = ''gmt'', WeekStart = ''sunday'', Theme = ''blue''\<rparr>,
              \<lparr>OrgId = 1, UserId = 0, TeamId = 5, HomeDashboardId = 7, Timezone = ''browser'', WeekStart = ''monday'', Theme = ''light''\<rparr>]
             (listQuery \<lparr>User_Teams = [5], User_OrgId = 1, User_UserId = 9\<rparr>))
          \<lparr>OrgId = 0, UserId = 0, TeamId = 0, HomeDashboardId = 0, Timezone = [], WeekStart = [], Theme = []\<rparr> = Inr res \<and>
        Theme res = ''dark'' \<and> Timezone res = ''utc'' \<and> WeekStart res = ''monday'' \<and>
        HomeDashboardId res = 7)"
proof -
  let ?team = "\<lparr>OrgId = 1, UserId = 0, TeamId = 5, HomeDashboardId = 7, Timezone = ''browser'', WeekStart = ''monday'', Theme = ''light''\<rparr>"
  let ?org = "\<lparr>OrgId = 1, UserId = 0, TeamId = 0, HomeDashboardId = 0, Timezone = ''utc'', WeekStart = [], Theme = ''light''\<rparr>"
  let ?user = "\<lparr>OrgId = 1, UserId = 9, TeamId = 0, HomeDashboardId = 0, Timezone = [], WeekStart = [], Theme = ''dark''\<rparr>"
  let ?other = "\<lparr>OrgId = 2, UserId = 0, TeamId = 0, HomeDashboardId = 4, Timezone = ''cet'', WeekStart = ''saturday'', Theme = ''system''\<rparr>"
  let ?team6 = "\<lparr>OrgId = 1, UserId = 0, TeamId = 6, HomeDashboardId = 8, Timezone = ''gmt'', WeekStart = ''sunday'', Theme = ''blue''\<rparr>"
  let ?dflt = "\<lparr>OrgId = 0, UserId = 0, TeamId = 0, HomeDashboardId = 0, Timezone = [], WeekStart = [], Theme = []\<rparr>"
  let ?stored = "[?user, ?other, ?org, ?team6, ?team]"
  let ?q = "listQuery \<lparr>User_Teams = [5], User_OrgId = 1, User_UserId = 9\<rparr>"
  note main = GetPreferencesWithDefaults_last_non_empty_wins
      [of "[?team, ?org, ?user]" ?dflt ?stored "\<lparr>User_Teams = [5], User_OrgId = 1, User_UserId = 9\<rparr>"]
  from main [THEN conjunct1]
  obtain res where ret: "GetPreferencesWithDefaults ([?team, ?org, ?user], None) ?dflt = Inr res"
    and th: "\<forall>xs p ys. [?team, ?org, ?user] = xs @ p # ys \<and> Theme p \<noteq> [] \<and>
               (\<forall>q\<in>set ys. Theme q = []) \<longrightarrow> Theme res = Theme p"
    and tz: "\<forall>xs p ys. [?team, ?org, ?user] = xs @ p # ys \<and> Timezone p \<noteq> [] \<and>
               (\<forall>q\<in>set ys. Timezone q = []) \<longrightarrow> Timezone res = Timezone p"
    and ws: "\<forall>xs p ys. [?team, ?org, ?user] = xs @ p # ys \<and> WeekStart p \<noteq> [] \<and>
               (\<forall>q\<in>set ys. WeekStart q = []) \<longrightarrow> WeekStart res = WeekStart p"
    and hd: "\<forall>xs p ys. [?team, ?org, ?user] = xs @ p # ys \<and> HomeDashboardId p \<noteq> 0 \<and>
               (\<forall>q\<in>set ys. HomeDashboardId q = 0) \<longrightarrow> HomeDashboardId res = HomeDashboardId p"
    by (elim exE conjE)
  have 1: "Theme res = ''dark''"
    using th [rule_format, of "[?team, ?org]" ?user "[]"] by simp
  have 2: "Timezone res = ''utc''"
    using tz [rule_format, of "[?team]" ?org "[?user]"] by simp
  have 3: "WeekStart res = ''monday''"
    using ws [rule_format, of "[]" ?team "[?org, ?user]"] by simp
  have 4: "HomeDashboardId res = 7"
    using hd [rule_format, of "[]" ?team "[?org, ?user]"] by simp
  from ret 1 2 3 4 have a: "\<exists>res. GetPreferencesWithDefaults ([?team, ?org, ?user], None) ?dflt = Inr res \<and>
        Theme res = ''dark'' \<and> Timezone res = ''utc'' \<and> WeekStart res = ''monday'' \<and>
        HomeDashboardId res = 7"
    by (intro exI [of _ res] conjI)
  have us: "user_entries ?stored ?q = [?user]"
    by (simp add: user_entries_def listQuery_def)
  have os: "org_entries ?stored ?q = [?org]"
    by (simp add: org_entries_def listQuery_def)
  have ts: "team_entries ?stored ?q = [?team]"
    by (simp add: team_entries_def listQuery_def)
  from main [THEN conjunct2]
  obtain res' where ret': "GetPreferencesWithDefaults (preferenceStore_List ?stored ?q) ?dflt = Inr res'"
    and 5: "Theme res' = ''dark''" and 6: "Timezone res' = ''utc''"
    and 7: "WeekStart res' = ''monday''" and 8: "HomeDashboardId res' = 7"
    unfolding us os ts by (elim exE conjE) simp
  from ret' 5 6 7 8 have b: "\<exists>res. GetPreferencesWithDefaults (preferenceStore_List ?stored ?q) ?dflt = Inr res \<and>
        Theme res = ''dark'' \<and> Timezone res = ''utc'' \<and> WeekStart res = ''monday'' \<and>
        HomeDashboardId res = 7"
    by (intro exI [of _ res'] conjI)
  from a b show ?thesis by (rule conjI)
qed

text \<open>
  Claim C6. A field that is empty (the empty string, or zero for HomeDashboardId) in every
  listed entry is left as the store default has it.
\<close>

theorem GetPreferencesWithDefaults_keeps_defaults:
  "\<exists>res. GetPreferencesWithDefaults (prefs, None) defaults = Inr res \<and>
     ((\<forall>p\<in>set prefs. Theme p = []) \<longrightarrow> Theme res = Theme defaults) \<and>
     ((\<forall>p\<in>set prefs. Timezone p = []) \<longrightarrow> Timezone res = Timezone defaults) \<and>
     ((\<forall>p\<in>set prefs. WeekStart p = []) \<longrightarrow> WeekStart res = WeekStart defaults) \<and>
     ((\<forall>p\<in>set prefs. HomeDashboardId p = 0) \<longrightarrow> HomeDashboardId res = HomeDashboardId defaults)"
proof (intro exI conjI impI)
  show "GetPreferencesWithDefaults (prefs, None) defaults = Inr (merge_loop defaults prefs)"
    by (simp add: GetPreferencesWithDefaults_def)
next
  assume "\<forall>p\<in>set prefs. Theme p = []"
  then show "Theme (merge_loop defaults prefs) = Theme defaults"
    using merge_loop_keeps [where f = Theme and P = "\<lambda>q. Theme q \<noteq> []", OF merge_step_Theme]
    by simp
next
  assume "\<forall>p\<in>set prefs. Timezone p = []"
  then show "Timezone (merge_loop defaults prefs) = Timezone defaults"
    using merge_loop_keeps [where f = Timezone and P = "\<lambda>q. Timezone q \<noteq> []", OF merge_step_Timezone]
    by simp
next
  assume "\<forall>p\<in>set prefs. WeekStart p = []"
  then show "WeekStart (merge_loop defaults prefs) = WeekStart defaults"
    using merge_loop_keeps [where f = WeekStart and P = "\<lambda>q. WeekStart q \<noteq> []", OF merge_step_WeekStart]
    by simp
next
  assume "\<forall>p\<in>set prefs. HomeDashboardId p = 0"
  then show "HomeDashboardId (merge_loop defaults prefs) = HomeDashboardId defaults"
    using merge_loop_keeps [where f = HomeDashboardId and P = "\<lambda>q. HomeDashboardId q \<noteq> 0",
        OF merge_step_HomeDashboardId]
    by simp
qed

theorem GetPreferencesWithDefaults_keeps_defaults_witness:
  "\<exists>res. GetPreferencesWithDefaults
          ([\<lparr>OrgId = 1, UserId = 0, TeamId = 0, HomeDashboardId = 0, Timezone = [], WeekStart = [], Theme = []\<rparr>,
            \<lparr>OrgId = 1, UserId = 0, TeamId = 0, HomeDashboardId = 0, Timezone = [], WeekStart = [], Theme = []\<rparr>], None)
          \<lparr>OrgId = 1, UserId = 0, TeamId = 0, HomeDashboardId = 3, Timezone = ''utc'', WeekStart = ''sunday'', Theme = ''dark''\<rparr> = Inr res \<and>
        Theme res = ''dark'' \<and> Timezone res = ''utc'' \<and> WeekStart res = ''sunday'' \<and>
        HomeDashboardId res = 3"
proof -
  let ?e = "\<lparr>OrgId = 1, UserId = 0, TeamId = 0, HomeDashboardId = 0, Timezone = [], WeekStart = [], Theme = []\<rparr>"
  let ?d = "\<lparr>OrgId = 1, UserId = 0, TeamId = 0, HomeDashboardId = 3, Timezone = ''utc'', WeekStart = ''sunday'', Theme = ''dark''\<rparr>"
  from GetPreferencesWithDefaults_keeps_defaults [of "[?e, ?e]" ?d]
  obtain res where ret: "GetPreferencesWithDefaults ([?e, ?e], None) ?d = Inr res"
    and th: "(\<forall>p\<in>set [?e, ?e]. Theme p = []) \<longrightarrow> Theme res = Theme ?d"
    and tz: "(\<forall>p\<in>set [?e, ?e]. Timezone p = []) \<longrightarrow> Timezone res = Timezone ?d"
    and ws: "(\<forall>p\<in>set [?e, ?e]. WeekStart p = []) \<longrightarrow> WeekStart res = WeekStart ?d"
    and hd: "(\<forall>p\<in>set [?e, ?e]. HomeDashboardId p = 0) \<longrightarrow> HomeDashboardId res = HomeDashboardId ?d"
    by (elim exE conjE)
  have 1: "Theme res = ''dark''" using th by simp
  have 2: "Timezone res = ''utc''" using tz by simp
  have 3: "WeekStart res = ''sunday''" using ws by simp
  have 4: "HomeDashboardId res = 3" using hd by simp
  from ret 1 2 3 4 show ?thesis by (intro exI [of _ res] conjI)
qed

section \<open>Claims about the access-control API\<close>

text \<open>
  Claim C2, evaluated at a failing request. The claim says that an error from
  \<open>GetUserPermissions\<close> reaches the client as an HTTP 500 response. Here the service
  fails with "database is locked": the handler builds the 500 response and drops it,
  and what it returns is a 200 response carrying the permissions map of the nil slice.
\<close>

theorem getUserPermissions_returns_200_on_error:
  "returned (getUserPermissions
       \<lparr>GetUserPermissions = (\<lambda>u opts. ([], Some (Error ''database is locked''))),
        GetSimplifiedUsersPermissions = (\<lambda>u org actionPrefix. ([], None)),
        BuildPermissionsMap = (\<lambda>ps. map (\<lambda>p. (p, True)) ps)\<rparr>
       \<lparr>query_params = Map.empty, SignedInUser = ''alice'', OrgID = 1\<rparr>)
     = (JSON 200 (PermissionsMapBody []) :: ((string \<times> bool) list, string list) Response)
   \<and> dropped (getUserPermissions
       \<lparr>GetUserPermissions = (\<lambda>u opts. ([], Some (Error ''database is locked''))),
        GetSimplifiedUsersPermissions = (\<lambda>u org actionPrefix. ([], None)),
        BuildPermissionsMap = (\<lambda>ps. map (\<lambda>p. (p, True)) ps)\<rparr>
       \<lparr>query_params = Map.empty, SignedInUser = ''alice'', OrgID = 1\<rparr>)
     = [JSON 500 (ErrBody (Error ''database is locked'')) :: ((string \<times> bool) list, string list) Response]"
  by (simp add: getUserPermissions_def Let_def StatusOK_def StatusInternalServerError_def)

text \<open>
  Claim C9. With an empty \<open>actionPrefix\<close> query parameter \<open>getSimpliedUsersPermissions\<close>
  returns a 400 response with body "missing action prefix" and makes no call to the
  service. With a non-empty one it calls \<open>GetSimplifiedUsersPermissions\<close> once, with the
  signed-in user, the organisation and the prefix, and returns a 500 error response when
  the call fails and a 200 response with the permissions when it succeeds.
\<close>

theorem getSimpliedUsersPermissions_responses:
  "(Query c ''actionPrefix'' = [] \<longrightarrow>
      returned (getSimpliedUsersPermissions api c) = JSON 400 (TextBody ''missing action prefix'') \<and>
      service_calls (getSimpliedUsersPermissions api c) = []) \<and>
   (Query c ''actionPrefix'' \<noteq> [] \<longrightarrow>
      service_calls (getSimpliedUsersPermissions api c) =
        [CallGetSimplifiedUsersPermissions (SignedInUser c) (OrgID c) (Query c ''actionPrefix'')] \<and>
      (\<forall>perms e. GetSimplifiedUsersPermissions api (SignedInUser c) (OrgID c) (Query c ''actionPrefix'')
                    = (perms, Some e) \<longrightarrow>
         returned (getSimpliedUsersPermissions api c) =
           ErrorResponse 500 ''could not get org user permissions'' e \<and>
         Status (returned (getSimpliedUsersPermissions api c)) = 500) \<and>
      (\<forall>perms. GetSimplifiedUsersPermissions api (SignedInUser c) (OrgID c) (Query c ''actionPrefix'')
                    = (perms, None) \<longrightarrow>
         returned (getSimpliedUsersPermissions api c) = JSON 200 (SimplifiedBody perms)))"
  by (simp add: getSimpliedUsersPermissions_def Let_def StatusOK_def StatusBadRequest_def
      StatusInternalServerError_def split: prod.splits option.splits)

theorem getSimpliedUsersPermissions_responses_witness:
  "returned (getSimpliedUsersPermissions
       \<lparr>GetUserPermissions = (\<lambda>u opts. ([] :: string list, None)),
        GetSimplifiedUsersPermissions = (\<lambda>u org actionPrefix. ([(2 :: nat, [actionPrefix @ ''read''])], None)),
        BuildPermissionsMap = (\<lambda>ps. ps)\<rparr>
       \<lparr>query_params = Map.empty, SignedInUser = ''alice'', OrgID = 1\<rparr>)
     = JSON 400 (TextBody ''missing action prefix'') \<and>
   service_calls (getSimpliedUsersPermissions
       \<lparr>GetUserPermissions = (\<lambda>u opts. ([] :: string list, None)),
        GetSimplifiedUsersPermissions = (\<lambda>u org actionPrefix. ([(2 :: nat, [actionPrefix @ ''read''])], None)),
        BuildPermissionsMap = (\<lambda>ps. ps)\<rparr>
       \<lparr>query_params = Map.empty, SignedInUser = ''alice'', OrgID = 1\<rparr>) = [] \<and>
   returned (getSimpliedUsersPermissions
       \<lparr>GetUserPermissions = (\<lambda>u opts. ([] :: string list, None)),
        GetSimplifiedUsersPermissions = (\<lambda>u org actionPrefix. ([(2 :: nat, [actionPrefix @ ''read''])], None)),
        BuildPermissionsMap = (\<lambda>ps. ps)\<rparr>
       \<lparr>query_params = [''actionPrefix'' \<mapsto> ''teams:''], SignedInUser = ''alice'', OrgID = 1\<rparr>)
     = JSON 200 (SimplifiedBody [(2, [''teams:read''])]) \<and>
   Status (returned (getSimpliedUsersPermissions
       \<lparr>GetUserPermissions = (\<lambda>u opts. ([] :: string list, None)),
        GetSimplifiedUsersPermissions = (\<lambda>u org actionPrefix. ([] :: (nat \<times> string list) list, Some (Error ''timeout''))),
        BuildPermissionsMap = (\<lambda>ps. ps)\<rparr>
       \<lparr>query_params = [''actionPrefix'' \<mapsto> ''teams:''], SignedInUser = ''alice'', OrgID = 1\<rparr>))
     = 500"
proof -
  let ?ok = "\<lparr>GetUserPermissions = (\<lambda>u opts. ([] :: string list, None)),
        GetSimplifiedUsersPermissions = (\<lambda>u org actionPrefix. ([(2 :: nat, [actionPrefix @ ''read''])], None)),
        BuildPermissionsMap = (\<lambda>ps. ps)\<rparr>"
  let ?bad = "\<lparr>GetUserPermissions = (\<lambda>u opts. ([] :: string list, None)),
        GetSimplifiedUsersPermissions = (\<lambda>u org actionPrefix. ([] :: (nat \<times> string list) list, Some (Error ''timeout''))),
        BuildPermissionsMap = (\<lambda>ps. ps)\<rparr>"
  let ?c0 = "\<lparr>query_params = Map.empty, SignedInUser = ''alice'', OrgID = 1\<rparr>"
  let ?c1 = "\<lparr>query_params = [''actionPrefix'' \<mapsto> ''teams:''], SignedInUser = ''alice'', OrgID = 1\<rparr>"
  have q0: "Query ?c0 ''actionPrefix'' = []" by (simp add: Query_def)
  have q1: "Query ?c1 ''actionPrefix'' = ''teams:''" by (simp add: Query_def)
  have a: "returned (getSimpliedUsersPermissions ?ok ?c0) = JSON 400 (TextBody ''missing action prefix'')
      \<and> service_calls (getSimpliedUsersPermissions ?ok ?c0) = []"
    using getSimpliedUsersPermissions_responses [of ?c0 ?ok] q0 by simp
  have b: "returned (getSimpliedUsersPermissions ?ok ?c1) = JSON 200 (SimplifiedBody [(2, [''teams:read''])])"
    using getSimpliedUsersPermissions_responses [of ?c1 ?ok] q1 by simp
  have c: "Status (returned (getSimpliedUsersPermissions ?bad ?c1)) = 500"
    using getSimpliedUsersPermissions_responses [of ?c1 ?bad] q1 by simp
  from a b c show ?thesis by (intro conjI) simp_all
qed

section \<open>Claims about the API-key service\<close>

text \<open>
  Claim C8. Whatever the configuration, the service built by \<open>ProvideService\<close> holds the
  \<open>sqlStore\<close> backend: the assignment after the feature-toggle test overwrites the
  \<open>sqlxStore\<close> one, so the store is the same with \<open>newDBLibrary\<close> enabled and disabled.
\<close>

theorem ProvideService_store_is_sqlStore:
  "store (fst (ProvideService env GetSqlxSession Publish db cfg)) = Some (sqlStore db cfg) \<and>
   store (fst (ProvideService env GetSqlxSession Publish db
                 (cfg\<lparr>IsFeatureToggleEnabled := (\<lambda>name. name = ''newDBLibrary'')\<rparr>))) =
     Some (sqlStore db (cfg\<lparr>IsFeatureToggleEnabled := (\<lambda>name. name = ''newDBLibrary'')\<rparr>)) \<and>
   store (fst (ProvideService env GetSqlxSession Publish db
                 (cfg\<lparr>IsFeatureToggleEnabled := (\<lambda>name. False)\<rparr>))) =
     Some (sqlStore db (cfg\<lparr>IsFeatureToggleEnabled := (\<lambda>name. False)\<rparr>))"
  by (simp add: ProvideService_def Let_def split: prod.splits option.splits)

lemma readQuotaConfig_with_section:
  assumes "Raw cfg = Some raw" and "raw ''quota'' = Some sec"
    and "NewTag env (QuotaTargetSrv env) (QuotaTarget env) GlobalScope = Inr gt"
    and "NewTag env (QuotaTargetSrv env) (QuotaTarget env) OrgScope = Inr ot"
  shows "readQuotaConfig env cfg =
           ([gt \<mapsto> MustInt64 (ParseInt env) (Key sec ''global_api_key'') (- 1),
             ot \<mapsto> MustInt64 (ParseInt env) (Key sec ''org_api_key'') 10], None)"
  using assms by (simp add: readQuotaConfig_def HasSection_def Section_def Let_def)

text \<open>
  Claim C5. \<open>readQuotaConfig\<close> returns an empty map and no error when \<open>cfg.Raw\<close> is nil or
  has no "quota" section. With a "quota" section, and the global and the org tag built by
  \<open>quota.NewTag\<close>, it returns no error and a map with exactly these two tags: the global
  tag bound to the section's \<open>global_api_key\<close> value (\<open>-1\<close> when the key is absent), the
  org tag to its \<open>org_api_key\<close> value (\<open>10\<close> when the key is absent).
\<close>

theorem readQuotaConfig_limits:
  "(Raw cfg = None \<longrightarrow> readQuotaConfig env cfg = (Map.empty, None)) \<and>
   (\<forall>raw. Raw cfg = Some raw \<and> \<not> HasSection raw ''quota''
      \<longrightarrow> readQuotaConfig env cfg = (Map.empty, None)) \<and>
   (\<forall>raw sec gt ot.
      Raw cfg = Some raw \<and> raw ''quota'' = Some sec \<and>
      NewTag env (QuotaTargetSrv env) (QuotaTarget env) GlobalScope = Inr gt \<and>
      NewTag env (QuotaTargetSrv env) (QuotaTarget env) OrgScope = Inr ot \<and> gt \<noteq> ot
      \<longrightarrow> (\<exists>limits. readQuotaConfig env cfg = (limits, None) \<and> dom limits = {gt, ot} \<and>
             limits gt = Some (MustInt64 (ParseInt env) (Key sec ''global_api_key'') (- 1)) \<and>
             limits ot = Some (MustInt64 (ParseInt env) (Key sec ''org_api_key'') 10) \<and>
             (sec ''global_api_key'' = None \<and> ParseInt env [] = None \<longrightarrow> limits gt = Some (- 1)) \<and>
             (sec ''org_api_key'' = None \<and> ParseInt env [] = None \<longrightarrow> limits ot = Some 10) \<and>
             (\<forall>v n. sec ''global_api_key'' = Some v \<and> ParseInt env v = Some n \<longrightarrow> limits gt = Some n) \<and>
             (\<forall>v n. sec ''org_api_key'' = Some v \<and> ParseInt env v = Some n \<longrightarrow> limits ot = Some n)))"
proof (intro conjI allI impI)
  assume "Raw cfg = None"
  then show "readQuotaConfig env cfg = (Map.empty, None)"
    by (simp add: readQuotaConfig_def)
next
  fix raw
  assume "Raw cfg = Some raw \<and> \<not> HasSection raw ''quota''"
  then show "readQuotaConfig env cfg = (Map.empty, None)"
    by (simp add: readQuotaConfig_def)
next
  fix raw sec gt ot
  assume h: "Raw cfg = Some raw \<and> raw ''quota'' = Some sec \<and>
      NewTag env (QuotaTargetSrv env) (QuotaTarget env) GlobalScope = Inr gt \<and>
      NewTag env (QuotaTargetSrv env) (QuotaTarget env) OrgScope = Inr ot \<and> gt \<noteq> ot"
  let ?limits = "[gt \<mapsto> MustInt64 (ParseInt env) (Key sec ''global_api_key'') (- 1),
                  ot \<mapsto> MustInt64 (ParseInt env) (Key sec ''org_api_key'') 10]"
  from h have ret: "readQuotaConfig env cfg = (?limits, None)"
    by (simp add: readQuotaConfig_with_section)
  from h have neq: "gt \<noteq> ot" by simp
  have d: "dom ?limits = {gt, ot}" by auto
  have g: "?limits gt = Some (MustInt64 (ParseInt env) (Key sec ''global_api_key'') (- 1))"
    using neq by simp
  have o: "?limits ot = Some (MustInt64 (ParseInt env) (Key sec ''org_api_key'') 10)"
    by simp
  have g_absent: "sec ''global_api_key'' = None \<and> ParseInt env [] = None \<longrightarrow> ?limits gt = Some (- 1)"
    using neq by (simp add: Key_def MustInt64_def)
  have o_absent: "sec ''org_api_key'' = None \<and> ParseInt env [] = None \<longrightarrow> ?limits ot = Some 10"
    by (simp add: Key_def MustInt64_def)
  have g_set: "\<forall>v n. sec ''global_api_key'' = Some v \<and> ParseInt env v = Some n \<longrightarrow> ?limits gt = Some n"
    using neq by (simp add: Key_def MustInt64_def)
  have o_set: "\<forall>v n. sec ''org_api_key'' = Some v \<and> ParseInt env v = Some n \<longrightarrow> ?limits ot = Some n"
    by (simp add: Key_def MustInt64_def)
  from ret d g o g_absent o_absent g_set o_set
  show "\<exists>limits. readQuotaConfig env cfg = (limits, None) \<and> dom limits = {gt, ot} \<and>
             limits gt = Some (MustInt64 (ParseInt env) (Key sec ''global_api_key'') (- 1)) \<and>
             limits ot = Some (MustInt64 (ParseInt env) (Key sec ''org_api_key'') 10) \<and>
             (sec ''global_api_key'' = None \<and> ParseInt env [] = None \<longrightarrow> limits gt = Some (- 1)) \<and>
             (sec ''org_api_key'' = None \<and> ParseInt env [] = None \<longrightarrow> limits ot = Some 10) \<and>
             (\<forall>v n. sec ''global_api_key'' = Some v \<and> ParseInt env v = Some n \<longrightarrow> limits gt = Some n) \<and>
             (\<forall>v n. sec ''org_api_key'' = Some v \<and> ParseInt env v = Some n \<longrightarrow> limits ot = Some n)"
    by (intro exI [of _ ?limits] conjI)
qed

theorem readQuotaConfig_limits_witness:
  "readQuotaConfig
     \<lparr>NewTag = (\<lambda>srv target scope. Inr (srv, target, scope)),
      QuotaTargetSrv = ''api_key'', QuotaTarget = ''api_key'',
      ParseInt = (\<lambda>v. if v = ''25'' then Some 25 else None)\<rparr>
     \<lparr>Raw = None, IsFeatureToggleEnabled = (\<lambda>name. False)\<rparr> = (Map.empty, None) \<and>
   readQuotaConfig
     \<lparr>NewTag = (\<lambda>srv target scope. Inr (srv, target, scope)),
      QuotaTargetSrv = ''api_key'', QuotaTarget = ''api_key'',
      ParseInt = (\<lambda>v. if v = ''25'' then Some 25 else None)\<rparr>
     \<lparr>Raw = Some [''server'' \<mapsto> Map.empty], IsFeatureToggleEnabled = (\<lambda>name. False)\<rparr>
       = (Map.empty, None) \<and>
   (\<exists>limits. readQuotaConfig
     \<lparr>NewTag = (\<lambda>srv target scope. Inr (srv, target, scope)),
      QuotaTargetSrv = ''api_key'', QuotaTarget = ''api_key'',
      ParseInt = (\<lambda>v. if v = ''25'' then Some 25 else None)\<rparr>
     \<lparr>Raw = Some [''quota'' \<mapsto> [''global_api_key'' \<mapsto> ''25'']],
      IsFeatureToggleEnabled = (\<lambda>name. False)\<rparr> = (limits, None) \<and>
     dom limits = {(''api_key'', ''api_key'', GlobalScope), (''api_key'', ''api_key'', OrgScope)} \<and>
     limits (''api_key'', ''api_key'', GlobalScope) = Some 25 \<and>
     limits (''api_key'', ''api_key'', OrgScope) = Some 10)"
proof -
  let ?env = "\<lparr>NewTag = (\<lambda>srv target scope. Inr (srv, target, scope)),
      QuotaTargetSrv = ''api_key'', QuotaTarget = ''api_key'',
      ParseInt = (\<lambda>v. if v = ''25'' then Some (25 :: int64) else None)\<rparr>"
  let ?none = "\<lparr>Raw = None, IsFeatureToggleEnabled = (\<lambda>name. False)\<rparr>"
  let ?other = "\<lparr>Raw = Some [''server'' \<mapsto> Map.empty], IsFeatureToggleEnabled = (\<lambda>name. False)\<rparr>"
  let ?sec = "[''global_api_key'' \<mapsto> ''25'']"
  let ?quota = "\<lparr>Raw = Some [''quota'' \<mapsto> ?sec], IsFeatureToggleEnabled = (\<lambda>name. False)\<rparr>"
  let ?g = "(''api_key'', ''api_key'', GlobalScope)"
  let ?o = "(''api_key'', ''api_key'', OrgScope)"
  have a: "readQuotaConfig ?env ?none = (Map.empty, None)"
    using readQuotaConfig_limits [of ?none ?env, THEN conjunct1] by simp
  have b: "readQuotaConfig ?env ?other = (Map.empty, None)"
    using readQuotaConfig_limits [of ?other ?env, THEN conjunct2, THEN conjunct1, rule_format,
        of "[''server'' \<mapsto> Map.empty]"]
    by (simp add: HasSection_def)
  have hyp: "Raw ?quota = Some [''quota'' \<mapsto> ?sec] \<and> [''quota'' \<mapsto> ?sec] ''quota'' = Some ?sec \<and>
      NewTag ?env (QuotaTargetSrv ?env) (QuotaTarget ?env) GlobalScope = Inr ?g \<and>
      NewTag ?env (QuotaTargetSrv ?env) (QuotaTarget ?env) OrgScope = Inr ?o \<and> ?g \<noteq> ?o"
    by simp
  from readQuotaConfig_limits [of ?quota ?env, THEN conjunct2, THEN conjunct2, rule_format, OF hyp]
  obtain limits where ret: "readQuotaConfig ?env ?quota = (limits, None)"
    and d: "dom limits = {?g, ?o}"
    and o_absent: "?sec ''org_api_key'' = None \<and> ParseInt ?env [] = None \<longrightarrow> limits ?o = Some 10"
    and g_set: "\<forall>v n. ?sec ''global_api_key'' = Some v \<and> ParseInt ?env v = Some n \<longrightarrow> limits ?g = Some n"
    by (elim exE conjE)
  have g: "limits ?g = Some 25"
    using g_set [rule_format, of "''25''" 25] by simp
  have o: "limits ?o = Some 10"
    using o_absent by simp
  from ret d g o have c: "\<exists>limits. readQuotaConfig ?env ?quota = (limits, None) \<and>
     dom limits = {?g, ?o} \<and> limits ?g = Some 25 \<and> limits ?o = Some 10"
    by (intro exI [of _ limits] conjI)
  from a b c show ?thesis by (intro conjI)
qed

section \<open>Properties of kind loading\<close>

lemma ToKindMeta_unified:
  "ToKindMeta rt T v =
     (if \<not> Exists rt v then Return (meta_of T (zero_meta rt), Some ErrValueNotExist)
      else case Validate rt (unified rt T v) of
             Some err \<Rightarrow>
               Return (meta_of T (zero_meta rt),
                       Some (ewrap (Err rt (unified rt T v)) ErrValueNotAKind))
           | None \<Rightarrow>
               (case Decode rt (unified rt T v) T of
                  Inl err \<Rightarrow> Panic (Details err)
                | Inr m \<Rightarrow> Return (meta_of T m, None)))"
  by (simp add: ToKindMeta_def unified_def Let_def split: option.splits sum.splits)

lemma try_category_unified:
  assumes "Exists rt v"
  shows "try_category rt T v otherwise =
     (case Validate rt (unified rt T v) of
        Some err \<Rightarrow> otherwise
      | None \<Rightarrow>
          (case Decode rt (unified rt T v) T of
             Inl err \<Rightarrow> Panic (Details err)
           | Inr m \<Rightarrow> Return (Some (meta_of T m), None)))"
  using assms
  by (simp add: try_category_def ToKindMeta_unified split: option.splits sum.splits)

lemma ToSomeKindMeta_find:
  assumes "Exists rt v"
  shows "ToSomeKindMeta rt v =
     (case find (\<lambda>T. Validate rt (unified rt T v) = None) category_order of
        None \<Rightarrow> Return (None, Some ErrValueNotAKind)
      | Some T \<Rightarrow>
          (case Decode rt (unified rt T v) T of
             Inl e \<Rightarrow> Panic (Details e)
           | Inr m \<Rightarrow> Return (Some (meta_of T m), None)))"
  using assms
  by (simp add: ToSomeKindMeta_def try_category_unified category_order_def
      split: option.splits)

section \<open>Claims about kind loading\<close>

text \<open>
  Claim C3. \<open>ToKindMeta[T](v)\<close> returns metadata with a nil error only if \<open>v\<close> exists and
  \<open>v\<close> unified with the framework definition of \<open>T\<close>'s category validates; the metadata
  is then what the unified value decodes to. If \<open>v\<close> does not exist it returns
  \<open>ErrValueNotExist\<close>; if the unified value fails validation it returns an error that
  wraps \<open>ErrValueNotAKind\<close>, next to the zero value of \<open>T\<close>.
\<close>

theorem ToKindMeta_validated_before_trusted:
  "(\<forall>meta. ToKindMeta rt T v = Return (meta, None) \<longrightarrow>
      Exists rt v \<and> Validate rt (unified rt T v) = None \<and>
      (\<exists>m. Decode rt (unified rt T v) T = Inr m \<and> meta = meta_of T m)) \<and>
   (\<not> Exists rt v \<longrightarrow>
      ToKindMeta rt T v = Return (meta_of T (zero_meta rt), Some ErrValueNotExist)) \<and>
   (\<forall>e. Exists rt v \<and> Validate rt (unified rt T v) = Some e \<longrightarrow>
      ToKindMeta rt T v =
        Return (meta_of T (zero_meta rt), Some (ewrap (Err rt (unified rt T v)) ErrValueNotAKind)) \<and>
      errors_Is (ewrap (Err rt (unified rt T v)) ErrValueNotAKind) ErrValueNotAKind)"
  by (simp add: ToKindMeta_unified split: option.splits sum.splits)

theorem ToKindMeta_validated_before_trusted_witness:
  "ToKindMeta (example_runtime [''kind & #Raw''] [''kind & #Raw'']) Raw_kind ''kind''
     = Return (RawMeta ''kind & #Raw'', None) \<and>
   Exists (example_runtime [''kind & #Raw''] [''kind & #Raw'']) ''kind'' \<and>
   Validate (example_runtime [''kind & #Raw''] [''kind & #Raw''])
     (unified (example_runtime [''kind & #Raw''] [''kind & #Raw'']) Raw_kind ''kind'') = None \<and>
   ToKindMeta (example_runtime [''kind & #Raw''] [''kind & #Raw'']) Raw_kind []
     = Return (RawMeta [], Some ErrValueNotExist) \<and>
   ToKindMeta (example_runtime [''kind & #Raw''] [''kind & #Raw'']) CoreStructured_kind ''kind''
     = Return (CoreStructuredMeta [],
               Some (ewrap (Some (Error ''conflicting values'')) ErrValueNotAKind))"
proof -
  let ?rt = "example_runtime [''kind & #Raw''] [''kind & #Raw'']"
  have u_raw: "unified ?rt Raw_kind ''kind'' = ''kind & #Raw''"
    by (simp add: unified_def example_runtime_def CUEFramework_def)
  have u_core: "unified ?rt CoreStructured_kind ''kind'' = ''kind & #CoreStructured''"
    by (simp add: unified_def example_runtime_def CUEFramework_def)
  have ex: "Exists ?rt ''kind''" and nex: "\<not> Exists ?rt []"
    by (simp_all add: example_runtime_def)
  have ok: "ToKindMeta ?rt Raw_kind ''kind'' = Return (RawMeta ''kind & #Raw'', None)"
    by (simp add: ToKindMeta_def example_runtime_def CUEFramework_def)
  have bad: "Validate ?rt (unified ?rt CoreStructured_kind ''kind'') = Some (Error ''conflicting values'')"
    unfolding u_core by (simp add: example_runtime_def)
  have err: "Err ?rt (unified ?rt CoreStructured_kind ''kind'') = Some (Error ''conflicting values'')"
    unfolding u_core by (simp add: example_runtime_def)
  have z: "zero_meta ?rt = []"
    by (simp add: example_runtime_def)
  from ToKindMeta_validated_before_trusted [of ?rt Raw_kind "''kind''", THEN conjunct1, rule_format, OF ok]
  have a: "Exists ?rt ''kind'' \<and> Validate ?rt (unified ?rt Raw_kind ''kind'') = None"
    by simp
  from ToKindMeta_validated_before_trusted [of ?rt Raw_kind "[]", THEN conjunct2, THEN conjunct1] nex z
  have b: "ToKindMeta ?rt Raw_kind [] = Return (RawMeta [], Some ErrValueNotExist)"
    by simp
  from ToKindMeta_validated_before_trusted [of ?rt CoreStructured_kind "''kind''",
      THEN conjunct2, THEN conjunct2, rule_format, of "Error ''conflicting values''"] ex bad err z
  have c: "ToKindMeta ?rt CoreStructured_kind ''kind''
     = Return (CoreStructuredMeta [],
               Some (ewrap (Some (Error ''conflicting values'')) ErrValueNotAKind))"
    by simp
  from ok a b c show ?thesis by (intro conjI) simp_all
qed

text \<open>
  Claim C4, as stated, at a value that validates as a raw kind and does not decode. The
  claim says that for an existing value \<open>ToSomeKindMeta\<close> returns the metadata of the first
  category that validates. \<open>Validate\<close> is called with \<open>cue.Concrete(false)\<close>, so a value
  can validate and still fail \<open>Decode\<close>: here the value exists and validates against the
  first category, and the call panics instead of returning.
\<close>

theorem ToSomeKindMeta_panics_counterexample:
  "Exists (example_runtime [''kind & #Raw''] []) ''kind'' \<and>
   Validate (example_runtime [''kind & #Raw''] [])
     (unified (example_runtime [''kind & #Raw''] []) Raw_kind ''kind'') = None \<and>
   ToSomeKindMeta (example_runtime [''kind & #Raw''] []) ''kind''
     = Panic (Details (Error ''incomplete value''))"
  by (simp add: ToSomeKindMeta_def try_category_def ToKindMeta_def unified_def
      example_runtime_def CUEFramework_def)

text \<open>
  Claim C4, amended. \<open>ToSomeKindMeta\<close> returns \<open>ErrValueNotExist\<close> when the value does not
  exist and \<open>ErrValueNotAKind\<close> when it exists and validates against none of the four
  categories. Otherwise it takes the first category, in the order raw, core-structured,
  custom-structured, slot-implementation, against which the value validates: it returns
  the metadata of that category when the unified value decodes, and panics with the
  decoding error when it does not; later categories are not tried.
\<close>

theorem ToSomeKindMeta_first_validating_category:
  "(\<not> Exists rt v \<longrightarrow> ToSomeKindMeta rt v = Return (None, Some ErrValueNotExist)) \<and>
   (Exists rt v \<and> (\<forall>T. Validate rt (unified rt T v) \<noteq> None) \<longrightarrow>
      ToSomeKindMeta rt v = Return (None, Some ErrValueNotAKind)) \<and>
   (\<forall>T m. Exists rt v \<and>
      find (\<lambda>T. Validate rt (unified rt T v) = None) category_order = Some T \<and>
      Decode rt (unified rt T v) T = Inr m \<longrightarrow>
      ToSomeKindMeta rt v = Return (Some (meta_of T m), None)) \<and>
   (\<forall>T e. Exists rt v \<and>
      find (\<lambda>T. Validate rt (unified rt T v) = None) category_order = Some T \<and>
      Decode rt (unified rt T v) T = Inl e \<longrightarrow>
      ToSomeKindMeta rt v = Panic (Details e))"
proof (intro conjI allI impI)
  assume "\<not> Exists rt v"
  then show "ToSomeKindMeta rt v = Return (None, Some ErrValueNotExist)"
    by (simp add: ToSomeKindMeta_def)
next
  assume h: "Exists rt v \<and> (\<forall>T. Validate rt (unified rt T v) \<noteq> None)"
  then have "find (\<lambda>T. Validate rt (unified rt T v) = None) category_order = None"
    by (simp add: find_None_iff)
  with h show "ToSomeKindMeta rt v = Return (None, Some ErrValueNotAKind)"
    by (simp add: ToSomeKindMeta_find)
next
  fix T m
  assume "Exists rt v \<and>
      find (\<lambda>T. Validate rt (unified rt T v) = None) category_order = Some T \<and>
      Decode rt (unified rt T v) T = Inr m"
  then show "ToSomeKindMeta rt v = Return (Some (meta_of T m), None)"
    by (simp add: ToSomeKindMeta_find)
next
  fix T e
  assume "Exists rt v \<and>
      find (\<lambda>T. Validate rt (unified rt T v) = None) category_order = Some T \<and>
      Decode rt (unified rt T v) T = Inl e"
  then show "ToSomeKindMeta rt v = Panic (Details e)"
    by (simp add: ToSomeKindMeta_find)
qed

theorem ToSomeKindMeta_first_validating_category_witness:
  "ToSomeKindMeta (example_runtime [] []) [] = Return (None, Some ErrValueNotExist) \<and>
   ToSomeKindMeta (example_runtime [] []) ''kind'' = Return (None, Some ErrValueNotAKind) \<and>
   ToSomeKindMeta
     (example_runtime [''kind & #CoreStructured'', ''kind & #Slot''] [''kind & #CoreStructured''])
     ''kind'' = Return (Some (CoreStructuredMeta ''kind & #CoreStructured''), None) \<and>
   ToSomeKindMeta (example_runtime [''kind & #CustomStructured''] []) ''kind''
     = Panic (Details (Error ''incomplete value''))"
proof -
  let ?none = "example_runtime [] []"
  let ?core = "example_runtime [''kind & #CoreStructured'', ''kind & #Slot''] [''kind & #CoreStructured'']"
  let ?cust = "example_runtime [''kind & #CustomStructured''] []"
  have u: "\<And>valid decodable T.
      unified (example_runtime valid decodable) T ''kind'' = ''kind & #'' @ kdef_name T"
    by (simp add: unified_def example_runtime_def CUEFramework_def)
  have 1: "ToSomeKindMeta ?none [] = Return (None, Some ErrValueNotExist)"
    using ToSomeKindMeta_first_validating_category [of ?none "[]", THEN conjunct1]
    by (simp add: example_runtime_def)
  have none: "Exists ?none ''kind'' \<and> (\<forall>T. Validate ?none (unified ?none T ''kind'') \<noteq> None)"
    by (simp add: example_runtime_def)
  have 2: "ToSomeKindMeta ?none ''kind'' = Return (None, Some ErrValueNotAKind)"
    using ToSomeKindMeta_first_validating_category [of ?none "''kind''",
        THEN conjunct2, THEN conjunct1] none
    by simp
  have core: "Exists ?core ''kind'' \<and>
      find (\<lambda>T. Validate ?core (unified ?core T ''kind'') = None) category_order
        = Some CoreStructured_kind \<and>
      Decode ?core (unified ?core CoreStructured_kind ''kind'') CoreStructured_kind
        = Inr ''kind & #CoreStructured''"
    unfolding u by (simp add: example_runtime_def category_order_def)
  have 3: "ToSomeKindMeta ?core ''kind''
      = Return (Some (CoreStructuredMeta ''kind & #CoreStructured''), None)"
    using ToSomeKindMeta_first_validating_category [of ?core "''kind''",
        THEN conjunct2, THEN conjunct2, THEN conjunct1, rule_format, OF core]
    by simp
  have cust: "Exists ?cust ''kind'' \<and>
      find (\<lambda>T. Validate ?cust (unified ?cust T ''kind'') = None) category_order
        = Some CustomStructured_kind \<and>
      Decode ?cust (unified ?cust CustomStructured_kind ''kind'') CustomStructured_kind
        = Inl (Error ''incomplete value'')"
    unfolding u by (simp add: example_runtime_def category_order_def)
  have 4: "ToSomeKindMeta ?cust ''kind'' = Panic (Details (Error ''incomplete value''))"
    using ToSomeKindMeta_first_validating_category [of ?cust "''kind''",
        THEN conjunct2, THEN conjunct2, THEN conjunct2, rule_format, OF cust]
    by simp
  from 1 2 3 4 show ?thesis by (intro conjI)
qed

text \<open>
  Claim C10. For a declaration whose \<open>Meta\<close> is a \<open>RawMeta\<close>, \<open>BindKindLineage\<close> returns
  a nil lineage and a nil error. For a core-structured, custom-structured or
  slot-implementation declaration it returns what \<open>thema.BindLineage\<close> gives on the value
  at the declaration's path "lineage", with the runtime passed in, or Grafana's when that
  is nil.
\<close>

theorem BindKindLineage_by_category:
  "(IsRaw decl \<longrightarrow> BindKindLineage env decl rt opts = Return (None, None)) \<and>
   (IsCoreStructured decl \<or> IsCustomStructured decl \<or> IsSlotImpl decl \<longrightarrow>
      BindKindLineage env decl rt opts =
        Return (BindLineage env (LookupPath env (V decl) [Str ''lineage''])
                  (case rt of None \<Rightarrow> GrafanaThemaRuntime env | Some r \<Rightarrow> r) opts))"
  by (simp add: BindKindLineage_def IsRaw_def IsCoreStructured_def IsCustomStructured_def
      IsSlotImpl_def Let_def split: option.splits SomeKindMeta.splits)

theorem BindKindLineage_by_category_witness:
  "BindKindLineage (example_runtime [] []) \<lparr>V = ''kind'', Meta = Some (RawMeta ''raw'')\<rparr> None []
     = Return (None, None) \<and>
   BindKindLineage (example_runtime [] []) \<lparr>V = ''kind'', Meta = Some (CoreStructuredMeta ''core'')\<rparr>
       None [] = Return (Some ''kind.lineage'', None) \<and>
   BindKindLineage (example_runtime [] []) \<lparr>V = ''kind'', Meta = Some (SlotImplMeta ''slot'')\<rparr>
       (Some 3) [] = Return (Some ''kind.lineage'', None)"
proof -
  let ?rt = "example_runtime [] []"
  let ?raw = "\<lparr>V = ''kind'', Meta = Some (RawMeta ''raw'')\<rparr>"
  let ?core = "\<lparr>V = ''kind'', Meta = Some (CoreStructuredMeta ''core'')\<rparr>"
  let ?slot = "\<lparr>V = ''kind'', Meta = Some (SlotImplMeta ''slot'')\<rparr>"
  have r: "IsRaw ?raw" by (simp add: IsRaw_def)
  have c: "IsCoreStructured ?core \<or> IsCustomStructured ?core \<or> IsSlotImpl ?core"
    by (simp add: IsCoreStructured_def)
  have s: "IsCoreStructured ?slot \<or> IsCustomStructured ?slot \<or> IsSlotImpl ?slot"
    by (simp add: IsSlotImpl_def)
  have 1: "BindKindLineage ?rt ?raw None [] = Return (None, None)"
    using BindKindLineage_by_category [of ?raw ?rt None "[]", THEN conjunct1] r by simp
  have 2: "BindKindLineage ?rt ?core None [] = Return (Some ''kind.lineage'', None)"
    using BindKindLineage_by_category [of ?core ?rt None "[]", THEN conjunct2, rule_format, OF c]
    by (simp add: example_runtime_def)
  have 3: "BindKindLineage ?rt ?slot (Some 3) [] = Return (Some ''kind.lineage'', None)"
    using BindKindLineage_by_category [of ?slot ?rt "Some 3" "[]", THEN conjunct2, rule_format, OF s]
    by (simp add: example_runtime_def)
  from 1 2 3 show ?thesis by (intro conjI)
qed

section \<open>Properties of paths\<close>























section \<open>Properties of the walk\<close>






section \<open>Claims about the merged file system\<close>




end
